theory Spec2Isabelle
  imports Complex_Main
begin

section \<open>Conventions\<close>

text \<open>
  The development embeds the training-support helpers of \<^verbatim>\<open>models/utils.py\<close> and the
  patch extraction of \<^verbatim>\<open>data/utils.py\<close>.

  \<^item> Python and torch floats are modelled as real numbers: rounding is not modelled. A float
    result that is no real number (an infinity or a NaN, from a division by zero inside
    torch or from the logarithm of a non-positive number) is the value \<open>None\<close> of
    \<open>real option\<close>.
  \<^item> A Python exception is a value \<open>Inl e\<close> of a sum type. An object that a method mutates
    is passed in and returned; a method that can raise after it has mutated the object
    returns the object together with the exception.
  \<^item> Output written with \<^verbatim>\<open>print\<close> is not part of the model.
\<close>

datatype py_error =
  AssertionError | ZeroDivisionError | ValueError | RuntimeError | IndexError
  | TypeError | OSError

section \<open>The simple early-stopping monitor (class EarlyStopping)\<close>

record EarlyStopping =
  patience :: int
  min_delta :: real
  counter :: int
  best_loss :: "real option"
  early_stop :: bool

text \<open>\<^verbatim>\<open>__init__(self, patience=5, min_delta=0)\<close>\<close>

definition EarlyStopping_init :: "int \<Rightarrow> real \<Rightarrow> EarlyStopping" where
  "EarlyStopping_init p d =
     \<lparr>patience = p, min_delta = d, counter = 0, best_loss = None, early_stop = False\<rparr>"

text \<open>\<^verbatim>\<open>__call__(self, val_loss)\<close>: the \<^verbatim>\<open>if/elif/elif\<close> chain, in the source's order.\<close>

definition EarlyStopping_call :: "EarlyStopping \<Rightarrow> real \<Rightarrow> EarlyStopping" where
  "EarlyStopping_call self val_loss =
     (case best_loss self of
        None \<Rightarrow> self\<lparr>best_loss := Some val_loss\<rparr>
      | Some b \<Rightarrow>
          if b - val_loss > min_delta self then self\<lparr>best_loss := Some val_loss\<rparr>
          else if b - val_loss < min_delta self then
            (let self1 = self\<lparr>counter := counter self + 1\<rparr>
             in if counter self1 \<ge> patience self1 then self1\<lparr>early_stop := True\<rparr>
                else self1)
          else self)"

section \<open>Schedulers\<close>

text \<open>
  \<^verbatim>\<open>cosine_rampdown(current, rampdown_length)\<close>. The \<^verbatim>\<open>assert\<close> comes first; with Python
  numbers the division by a zero length raises.
\<close>

definition cosine_rampdown :: "real \<Rightarrow> real \<Rightarrow> py_error + real" where
  "cosine_rampdown current rampdown_length =
     (if \<not> (0 \<le> current \<and> current \<le> rampdown_length) then Inl AssertionError
      else if rampdown_length = 0 then Inl ZeroDivisionError
      else Inr (0.5 * (cos (pi * current / rampdown_length) + 1)))"

section \<open>Tensors\<close>




















section \<open>Dice score\<close>


section \<open>The validation loop\<close>
























section \<open>The checkpointing early-stopping monitor (class EarlyStoppingUnlearning)\<close>

text \<open>
  The disk that \<^verbatim>\<open>torch.save\<close> writes to: the files, and the trace of the calls of
  \<^verbatim>\<open>torch.save\<close> in the order they were made, whether they succeeded or not. Which paths
  can be written is a parameter \<open>writable\<close>; a save to another path raises. A model
  component is given by its \<^verbatim>\<open>state_dict()\<close>.
\<close>

record 'sd disk =
  files :: "string \<Rightarrow> 'sd option"
  attempts :: "string list"

definition empty_disk :: "'sd disk" where
  "empty_disk = \<lparr>files = Map.empty, attempts = []\<rparr>"

definition torch_save ::
  "(string \<Rightarrow> bool) \<Rightarrow> 'sd \<Rightarrow> string \<Rightarrow> 'sd disk \<Rightarrow> 'sd disk \<times> py_error option" where
  "torch_save writable obj f d =
     (let d1 = d\<lparr>attempts := attempts d @ [f]\<rparr>
      in if writable f then (d1\<lparr>files := (files d1)(f \<mapsto> obj)\<rparr>, None)
         else (d1, Some OSError))"

text \<open>
  The fields \<^verbatim>\<open>patience\<close>, \<^verbatim>\<open>counter\<close> and \<^verbatim>\<open>early_stop\<close> carry the suffix \<open>_u\<close>, the
  names being taken by the simple monitor. \<^verbatim>\<open>val_loss_min\<close> starts as \<^verbatim>\<open>np.Inf\<close>,
  which is no real number, and is never assigned again.
\<close>

record EarlyStoppingUnlearning =
  patience_u :: int
  verbose :: bool
  counter_u :: int
  best_score :: "real option"
  early_stop_u :: bool
  val_loss_min :: "real option"

text \<open>\<^verbatim>\<open>__init__(self, patience=5, verbose=False)\<close>\<close>

definition EarlyStoppingUnlearning_init :: "int \<Rightarrow> bool \<Rightarrow> EarlyStoppingUnlearning" where
  "EarlyStoppingUnlearning_init p v =
     \<lparr>patience_u = p, verbose = v, counter_u = 0, best_score = None, early_stop_u = False,
      val_loss_min = None\<rparr>"

text \<open>
  \<^verbatim>\<open>save_checkpoint(self, val_loss, models, epoch, optimizer, loss, PTHS)\<close>. The arguments
  \<^verbatim>\<open>epoch\<close>, \<^verbatim>\<open>optimizer\<close> and \<^verbatim>\<open>loss\<close> are not used by the source and are left out.
  Unpacking a list that has not three elements raises a ValueError. A path is tested for
  truth: the empty string is skipped. There is no \<^verbatim>\<open>try\<close>: the exception of a save
  leaves the method at once.
\<close>

definition save_checkpoint ::
  "(string \<Rightarrow> bool) \<Rightarrow> EarlyStoppingUnlearning \<Rightarrow> real \<Rightarrow> 'sd list \<Rightarrow> string list \<Rightarrow> 'sd disk
     \<Rightarrow> 'sd disk \<times> py_error option" where
  "save_checkpoint writable self val_loss models PTHS d =
     (case models of
        [encoder, regressor, domain_predictor] \<Rightarrow>
          (case PTHS of
             [PATH_ENCODER, PATH_REGRESSOR, PATH_DOMAIN] \<Rightarrow>
               (case (if PATH_ENCODER \<noteq> [] then torch_save writable encoder PATH_ENCODER d
                      else (d, None)) of
                  (d1, Some e) \<Rightarrow> (d1, Some e)
                | (d1, None) \<Rightarrow>
                    (case (if PATH_REGRESSOR \<noteq> []
                           then torch_save writable regressor PATH_REGRESSOR d1
                           else (d1, None)) of
                       (d2, Some e) \<Rightarrow> (d2, Some e)
                     | (d2, None) \<Rightarrow>
                         (if PATH_DOMAIN \<noteq> []
                          then torch_save writable domain_predictor PATH_DOMAIN d2
                          else (d2, None))))
           | _ \<Rightarrow> (d, Some ValueError))
      | _ \<Rightarrow> (d, Some ValueError))"

text \<open>
  \<^verbatim>\<open>__call__(self, val_loss, model, epoch, optimizer, loss, PTH)\<close>. In the last branch
  the counter is reset after the checkpoint: when the checkpoint raises, \<^verbatim>\<open>best_score\<close> is
  already assigned and the counter is not reset.
\<close>

definition EarlyStoppingUnlearning_call ::
  "(string \<Rightarrow> bool) \<Rightarrow> EarlyStoppingUnlearning \<Rightarrow> real \<Rightarrow> 'sd list \<Rightarrow> string list \<Rightarrow> 'sd disk
     \<Rightarrow> EarlyStoppingUnlearning \<times> 'sd disk \<times> py_error option" where
  "EarlyStoppingUnlearning_call writable self val_loss model PTH d =
     (let score = - val_loss
      in case best_score self of
           None \<Rightarrow>
             (let self1 = self\<lparr>best_score := Some score\<rparr>
              in case save_checkpoint writable self1 val_loss model PTH d of
                   (d1, r) \<Rightarrow> (self1, d1, r))
         | Some b \<Rightarrow>
             if score < b then
               (let self1 = self\<lparr>counter_u := counter_u self + 1\<rparr>
                in if counter_u self1 \<ge> patience_u self1
                   then (self1\<lparr>early_stop_u := True\<rparr>, d, None)
                   else (self1, d, None))
             else
               (let self1 = self\<lparr>best_score := Some score\<rparr>
                in case save_checkpoint writable self1 val_loss model PTH d of
                     (d1, Some e) \<Rightarrow> (self1, d1, Some e)
                   | (d1, None) \<Rightarrow> (self1\<lparr>counter_u := 0\<rparr>, d1, None)))"

text \<open>
  A sequence of update calls on one monitor. The caller goes on with the next call
  whatever the last one did, also after an exception: the monitor and the disk are then
  as the failed call left them.
\<close>

fun EarlyStoppingUnlearning_calls ::
  "(string \<Rightarrow> bool) \<Rightarrow> EarlyStoppingUnlearning \<times> 'sd disk
     \<Rightarrow> (real \<times> 'sd list \<times> string list) list \<Rightarrow> EarlyStoppingUnlearning \<times> 'sd disk" where
  "EarlyStoppingUnlearning_calls writable (self, d) [] = (self, d)"
| "EarlyStoppingUnlearning_calls writable (self, d) ((val_loss, model, PTH) # cs) =
     (case EarlyStoppingUnlearning_call writable self val_loss model PTH d of
        (self1, d1, r) \<Rightarrow> EarlyStoppingUnlearning_calls writable (self1, d1) cs)"

section \<open>Confusion loss\<close>

text \<open>
  \<^verbatim>\<open>confusion_loss.forward(x, target)\<close> on a two-dimensional tensor \<open>x\<close>, given as the list
  of its rows. \<open>size1\<close> is \<^verbatim>\<open>x.size()[1]\<close>. The logarithm of zero is minus infinity and
  that of a negative number is NaN, and so is the quotient by a zero number of classes:
  the loss is then no real number.
\<close>

definition size1 :: "real list list \<Rightarrow> nat" where
  "size1 x = (case x of [] \<Rightarrow> 0 | r # _ \<Rightarrow> length r)"

definition forward :: "real list list \<Rightarrow> 'b \<Rightarrow> real option" where
  "forward x target =
     (if (\<exists>r \<in> set x. \<exists>v \<in> set r. v \<le> 0) \<or> (x \<noteq> [] \<and> size1 x = 0) then None
      else
        (let log = map (map ln) x;
             log_sum = map sum_list log;
             normalised_log_sum = map (\<lambda>s. s / real (size1 x)) log_sum;
             loss = sum_list normalised_log_sum * (-1)
         in Some loss))"

section \<open>Patch extraction (data/utils.py)\<close>






section \<open>Results: the simple early-stopping monitor\<close>

text \<open>
  C1. With \<^verbatim>\<open>patience=3\<close> and \<^verbatim>\<open>min_delta=0\<close>, the flat losses
  \<^verbatim>\<open>[1.0, 1.0, 1.0, 1.0, 1.0, 1.0]\<close> should set \<^verbatim>\<open>early_stop\<close> by the fourth call. The code
  does not: the first call records the loss, and on every later call the difference is
  zero, neither greater nor smaller than \<^verbatim>\<open>min_delta\<close>, so that no branch is taken. The
  counter stays 0 and \<^verbatim>\<open>early_stop\<close> stays false, after four calls and after all six.
\<close>

theorem EarlyStopping_flat_never_stops:
  "early_stop (foldl EarlyStopping_call (EarlyStopping_init 3 0) [1, 1, 1, 1]) = False
   \<and> counter (foldl EarlyStopping_call (EarlyStopping_init 3 0) [1, 1, 1, 1]) = 0
   \<and> early_stop (foldl EarlyStopping_call (EarlyStopping_init 3 0) [1, 1, 1, 1, 1, 1]) = False
   \<and> counter (foldl EarlyStopping_call (EarlyStopping_init 3 0) [1, 1, 1, 1, 1, 1]) = 0"
  by (simp add: EarlyStopping_call_def EarlyStopping_init_def)

text \<open>
  C5. Once \<^verbatim>\<open>best_loss\<close> is set, an update whose loss lies exactly \<^verbatim>\<open>min_delta\<close> below
  \<^verbatim>\<open>best_loss\<close> changes nothing: the monitor after the call is the monitor before it.
\<close>

theorem EarlyStopping_exact_min_delta_unchanged:
  assumes "best_loss s = Some b" and "b - val_loss = min_delta s"
  shows "EarlyStopping_call s val_loss = s"
  using assms by (simp add: EarlyStopping_call_def)

theorem EarlyStopping_exact_min_delta_unchanged_witness:
  "best_loss \<lparr>patience = 3, min_delta = 1, counter = 2, best_loss = Some 5, early_stop = False\<rparr>
     = Some 5
   \<and> (5::real) - 4 = min_delta \<lparr>patience = 3, min_delta = 1, counter = 2, best_loss = Some 5,
                                 early_stop = False\<rparr>
   \<and> EarlyStopping_call \<lparr>patience = 3, min_delta = 1, counter = 2, best_loss = Some 5,
                           early_stop = False\<rparr> 4
     = \<lparr>patience = 3, min_delta = 1, counter = 2, best_loss = Some 5, early_stop = False\<rparr>"
  using EarlyStopping_exact_min_delta_unchanged
    [of "\<lparr>patience = 3, min_delta = 1, counter = 2, best_loss = Some 5, early_stop = False\<rparr>"
        5 4]
  by simp

section \<open>Results: the stopped flag never reverts\<close>

lemma EarlyStopping_call_keeps_stop:
  "early_stop s \<Longrightarrow> early_stop (EarlyStopping_call s x)"
  by (simp add: EarlyStopping_call_def Let_def split: option.splits)

lemma EarlyStopping_calls_keep_stop:
  "early_stop s \<Longrightarrow> early_stop (foldl EarlyStopping_call s xs)"
  by (induction xs arbitrary: s) (simp_all add: EarlyStopping_call_keeps_stop)

lemma EarlyStoppingUnlearning_call_keeps_stop:
  "early_stop_u s \<Longrightarrow> early_stop_u (fst (EarlyStoppingUnlearning_call w s v m p d))"
  by (simp add: EarlyStoppingUnlearning_call_def Let_def split: option.splits prod.splits)

lemma EarlyStoppingUnlearning_calls_keep_stop:
  "early_stop_u s \<Longrightarrow> early_stop_u (fst (EarlyStoppingUnlearning_calls w (s, d) cs))"
proof (induction cs arbitrary: s d)
  case Nil
  then show ?case by simp
next
  case (Cons c cs)
  obtain v m p where c: "c = (v, m, p)"
    by (cases c)
  obtain s1 d1 r where r: "EarlyStoppingUnlearning_call w s v m p d = (s1, d1, r)"
    by (cases "EarlyStoppingUnlearning_call w s v m p d")
  have "early_stop_u s1"
    using EarlyStoppingUnlearning_call_keeps_stop [OF Cons.prems, of w v m p d] r by simp
  then show ?case
    using Cons.IH c r by simp
qed

lemma EarlyStoppingUnlearning_calls_append:
  "EarlyStoppingUnlearning_calls w sd (cs @ ds)
     = EarlyStoppingUnlearning_calls w (EarlyStoppingUnlearning_calls w sd cs) ds"
  by (induction w sd cs rule: EarlyStoppingUnlearning_calls.induct)
     (simp_all split: prod.splits)

text \<open>
  C9. For the simple monitor and for the checkpointing monitor, started from their
  constructors: when \<^verbatim>\<open>early_stop\<close> is true after some sequence of update calls, it is true
  after every longer sequence that begins with it. For the checkpointing monitor this
  holds on any disk, whether or not a call raised.
\<close>

theorem early_stop_never_reverts:
  "(early_stop (foldl EarlyStopping_call (EarlyStopping_init p dl) xs)
      \<longrightarrow> early_stop (foldl EarlyStopping_call (EarlyStopping_init p dl) (xs @ ys)))
   \<and> (early_stop_u (fst (EarlyStoppingUnlearning_calls w (EarlyStoppingUnlearning_init q v, d) cs))
      \<longrightarrow> early_stop_u
            (fst (EarlyStoppingUnlearning_calls w (EarlyStoppingUnlearning_init q v, d) (cs @ ds))))"
proof (intro conjI impI)
  assume "early_stop (foldl EarlyStopping_call (EarlyStopping_init p dl) xs)"
  then show "early_stop (foldl EarlyStopping_call (EarlyStopping_init p dl) (xs @ ys))"
    by (simp add: EarlyStopping_calls_keep_stop)
next
  let ?sd = "EarlyStoppingUnlearning_calls w (EarlyStoppingUnlearning_init q v, d) cs"
  assume "early_stop_u (fst ?sd)"
  then have "early_stop_u (fst (EarlyStoppingUnlearning_calls w (fst ?sd, snd ?sd) ds))"
    by (rule EarlyStoppingUnlearning_calls_keep_stop)
  then show "early_stop_u
      (fst (EarlyStoppingUnlearning_calls w (EarlyStoppingUnlearning_init q v, d) (cs @ ds)))"
    by (simp add: EarlyStoppingUnlearning_calls_append)
qed

theorem early_stop_never_reverts_witness:
  "early_stop (foldl EarlyStopping_call (EarlyStopping_init 1 0) [1, 2])
   \<and> early_stop (foldl EarlyStopping_call (EarlyStopping_init 1 0) ([1, 2] @ [0.5]))
   \<and> early_stop_u (fst (EarlyStoppingUnlearning_calls (\<lambda>f. True)
        (EarlyStoppingUnlearning_init 1 False, empty_disk)
        [(1, [1::nat, 2, 3], [[], [], []]), (2, [1, 2, 3], [[], [], []])]))
   \<and> early_stop_u (fst (EarlyStoppingUnlearning_calls (\<lambda>f. True)
        (EarlyStoppingUnlearning_init 1 False, empty_disk)
        ([(1, [1::nat, 2, 3], [[], [], []]), (2, [1, 2, 3], [[], [], []])]
           @ [(0.5, [1, 2, 3], [''e'', [], []])])))"
proof -
  have a: "early_stop (foldl EarlyStopping_call (EarlyStopping_init 1 0) [1, 2])"
    by (simp add: EarlyStopping_call_def EarlyStopping_init_def)
  have b: "early_stop_u (fst (EarlyStoppingUnlearning_calls (\<lambda>f. True)
        (EarlyStoppingUnlearning_init 1 False, empty_disk)
        [(1, [1::nat, 2, 3], [[], [], []]), (2, [1, 2, 3], [[], [], []])]))"
    by (simp add: EarlyStoppingUnlearning_call_def EarlyStoppingUnlearning_init_def
        save_checkpoint_def empty_disk_def)
  show ?thesis
    using a b
      early_stop_never_reverts [of 1 0 "[1, 2]" "[0.5]" "\<lambda>f. True" 1 False empty_disk
        "[(1, [1::nat, 2, 3], [[], [], []]), (2, [1, 2, 3], [[], [], []])]"
        "[(0.5, [1, 2, 3], [''e'', [], []])]"]
    by blast
qed

section \<open>Results: the checkpointing early-stopping monitor\<close>

text \<open>
  C3 as stated: a failing save of one component should leave the saves of the others
  attempted. It fails on the code. With the encoder's path unwritable, the checkpoint
  makes one call of \<^verbatim>\<open>torch.save\<close>, for the encoder, and raises: the regressor and the
  domain predictor are never attempted, and nothing is written.
\<close>

theorem save_checkpoint_failure_stops_the_rest:
  "save_checkpoint (\<lambda>f. f \<noteq> ''enc.pth'') (EarlyStoppingUnlearning_init 5 False) 0.5
      [1::nat, 2, 3] [''enc.pth'', ''reg.pth'', ''dom.pth''] empty_disk
   = (\<lparr>files = Map.empty, attempts = [''enc.pth'']\<rparr>, Some OSError)"
  by (simp add: save_checkpoint_def torch_save_def empty_disk_def)

text \<open>
  C3 as amended. A checkpoint goes through the encoder, the regressor and the domain
  predictor in this order and skips a component whose path is empty. It attempts the
  saves up to and including the first one that fails and none after it, it raises
  exactly when one of them fails, and it has then written the components before the
  failing one. In particular, when no save fails, every component with a non-empty path is
  attempted and written.
\<close>

theorem save_checkpoint_attempts:
  "attempts (fst (save_checkpoint w self v [e, r, dp] [p1, p2, p3] d))
     = attempts d @ takeWhile w (filter (\<lambda>p. p \<noteq> []) [p1, p2, p3])
         @ take 1 (dropWhile w (filter (\<lambda>p. p \<noteq> []) [p1, p2, p3]))
   \<and> snd (save_checkpoint w self v [e, r, dp] [p1, p2, p3] d)
     = (if list_all w (filter (\<lambda>p. p \<noteq> []) [p1, p2, p3]) then None else Some OSError)
   \<and> files (fst (save_checkpoint w self v [e, r, dp] [p1, p2, p3] d))
     = fold (\<lambda>(p, c) f. f(p \<mapsto> c))
         (takeWhile (\<lambda>(p, c). w p)
            (filter (\<lambda>(p, c). p \<noteq> []) [(p1, e), (p2, r), (p3, dp)]))
         (files d)"
  by (simp add: save_checkpoint_def torch_save_def Let_def)

text \<open>
  C8 as stated: every update with \<^verbatim>\<open>score >= best_score\<close> should reset the counter to 0.
  It fails on the code. The counter is reset after the checkpoint, and there is no
  \<^verbatim>\<open>try\<close>: with the encoder's path unwritable, an improving update (loss 0.5 after a best
  loss of 1) assigns \<^verbatim>\<open>best_score\<close>, attempts the encoder's save and raises; the counter is
  2 as before, and the regressor and the domain predictor are not saved.
\<close>

theorem EarlyStoppingUnlearning_failed_checkpoint_keeps_counter:
  "EarlyStoppingUnlearning_call (\<lambda>f. f \<noteq> ''enc.pth'')
     \<lparr>patience_u = 5, verbose = False, counter_u = 2, best_score = Some (- 1),
      early_stop_u = False, val_loss_min = None\<rparr> 0.5 [1::nat, 2, 3]
     [''enc.pth'', ''reg.pth'', ''dom.pth''] empty_disk
   = (\<lparr>patience_u = 5, verbose = False, counter_u = 2, best_score = Some (- 0.5),
       early_stop_u = False, val_loss_min = None\<rparr>,
      \<lparr>files = Map.empty, attempts = [''enc.pth'']\<rparr>, Some OSError)"
  by (simp add: EarlyStoppingUnlearning_call_def save_checkpoint_def torch_save_def
      empty_disk_def Let_def)

text \<open>
  C8 as amended. After the first update (\<^verbatim>\<open>best_score\<close> is set), with
  \<^verbatim>\<open>score = -val_loss\<close>: an update with \<^verbatim>\<open>score < best_score\<close> adds one to the counter,
  sets \<^verbatim>\<open>early_stop\<close> when the new counter has reached the patience, and leaves the disk as
  it was (no checkpoint). An update with \<^verbatim>\<open>score >= best_score\<close>, on a bundle of three
  components and three paths, assigns the score to \<^verbatim>\<open>best_score\<close> and runs the checkpoint:
  it saves the components with a non-empty path in order, up to the first save that fails.
  When no save fails the counter is reset to 0; when one fails its exception leaves the
  update with the counter as it was.
\<close>

theorem EarlyStoppingUnlearning_update_after_first:
  assumes "best_score self = Some b"
  shows "(- val_loss < b \<longrightarrow>
            EarlyStoppingUnlearning_call w self val_loss model PTH d
              = (self\<lparr>counter_u := counter_u self + 1,
                      early_stop_u := early_stop_u self \<or> patience_u self \<le> counter_u self + 1\<rparr>,
                 d, None))
       \<and> (b \<le> - val_loss \<longrightarrow>
            EarlyStoppingUnlearning_call w self val_loss [e, r, dp] [p1, p2, p3] d
              = (if list_all w (filter (\<lambda>p. p \<noteq> []) [p1, p2, p3])
                 then self\<lparr>best_score := Some (- val_loss), counter_u := 0\<rparr>
                 else self\<lparr>best_score := Some (- val_loss)\<rparr>,
                 d\<lparr>files := fold (\<lambda>(p, c) f. f(p \<mapsto> c))
                                (takeWhile (\<lambda>(p, c). w p)
                                   (filter (\<lambda>(p, c). p \<noteq> []) [(p1, e), (p2, r), (p3, dp)]))
                                (files d),
                   attempts := attempts d @ takeWhile w (filter (\<lambda>p. p \<noteq> []) [p1, p2, p3])
                                 @ take 1 (dropWhile w (filter (\<lambda>p. p \<noteq> []) [p1, p2, p3]))\<rparr>,
                 if list_all w (filter (\<lambda>p. p \<noteq> []) [p1, p2, p3]) then None
                 else Some OSError))"
  using assms
  by (cases "early_stop_u self")
     (auto simp: EarlyStoppingUnlearning_call_def save_checkpoint_def torch_save_def Let_def)

theorem EarlyStoppingUnlearning_update_after_first_witness:
  "best_score \<lparr>patience_u = 2, verbose = False, counter_u = 1, best_score = Some (- 1),
               early_stop_u = False, val_loss_min = None\<rparr> = Some (- 1)
   \<and> EarlyStoppingUnlearning_call (\<lambda>f. True)
        \<lparr>patience_u = 2, verbose = False, counter_u = 1, best_score = Some (- 1),
         early_stop_u = False, val_loss_min = None\<rparr> 2 [1::nat, 2, 3] [''e'', ''r'', ''d'']
        empty_disk
      = (\<lparr>patience_u = 2, verbose = False, counter_u = 2, best_score = Some (- 1),
          early_stop_u = True, val_loss_min = None\<rparr>, empty_disk, None)
   \<and> EarlyStoppingUnlearning_call (\<lambda>f. True)
        \<lparr>patience_u = 2, verbose = False, counter_u = 1, best_score = Some (- 1),
         early_stop_u = False, val_loss_min = None\<rparr> 0.5 [1::nat, 2, 3] [''e'', [], ''d'']
        empty_disk
      = (\<lparr>patience_u = 2, verbose = False, counter_u = 0, best_score = Some (- 0.5),
          early_stop_u = False, val_loss_min = None\<rparr>,
         \<lparr>files = [''e'' \<mapsto> 1, ''d'' \<mapsto> 3], attempts = [''e'', ''d'']\<rparr>, None)"
  using EarlyStoppingUnlearning_update_after_first
      [of "\<lparr>patience_u = 2, verbose = False, counter_u = 1, best_score = Some (- 1),
             early_stop_u = False, val_loss_min = None\<rparr>" "- 1" 2 "\<lambda>f. True" "[1::nat, 2, 3]"
          "[''e'', ''r'', ''d'']" empty_disk]
    EarlyStoppingUnlearning_update_after_first
      [of "\<lparr>patience_u = 2, verbose = False, counter_u = 1, best_score = Some (- 1),
             early_stop_u = False, val_loss_min = None\<rparr>" "- 1" "0.5" "\<lambda>f. True" _ _ empty_disk
          "1::nat" 2 3 "''e''" "[]" "''d''"]
  by (simp add: empty_disk_def)

section \<open>Results: the cosine ramp-down\<close>

lemma cosine_rampdown_in_range:
  "0 < L \<Longrightarrow> 0 \<le> c \<Longrightarrow> c \<le> L
     \<Longrightarrow> cosine_rampdown c L = Inr (0.5 * (cos (pi * c / L) + 1))"
  by (simp add: cosine_rampdown_def)

lemma cos_ramp_mono:
  assumes "0 < L" "0 \<le> c" "c \<le> c'" "c' \<le> (L::real)"
  shows "cos (pi * c' / L) \<le> cos (pi * c / L)"
proof (rule cos_monotone_0_pi_le)
  show "0 \<le> pi * c / L"
    using assms by simp
  show "pi * c / L \<le> pi * c' / L"
    using assms by (simp add: divide_right_mono)
  have "c' / L \<le> 1"
    using assms by simp
  then have "pi * (c' / L) \<le> pi * 1"
    by (intro mult_left_mono) simp_all
  then show "pi * c' / L \<le> pi"
    by simp
qed

text \<open>
  C6. For a length \<open>L > 0\<close> and \<open>current\<close> in \<open>[0, L]\<close>, \<^verbatim>\<open>cosine_rampdown\<close> returns
  \<open>0.5 * (cos (pi * current / L) + 1)\<close>; it does not increase when \<open>current\<close> grows within
  \<open>[0, L]\<close>; it is 1 at 0 and 0 at \<open>L\<close>.
\<close>

theorem cosine_rampdown_spec:
  assumes "0 < L" and "0 \<le> c" and "c \<le> L"
  shows "cosine_rampdown c L = Inr (0.5 * (cos (pi * c / L) + 1))
    \<and> (\<forall>c'. c \<le> c' \<and> c' \<le> L \<longrightarrow>
          (\<exists>v v'. cosine_rampdown c L = Inr v \<and> cosine_rampdown c' L = Inr v' \<and> v' \<le> v))
    \<and> cosine_rampdown 0 L = Inr 1
    \<and> cosine_rampdown L L = Inr 0"
proof -
  have "\<exists>v v'. cosine_rampdown c L = Inr v \<and> cosine_rampdown c' L = Inr v' \<and> v' \<le> v"
    if "c \<le> c'" "c' \<le> L" for c'
  proof (intro exI conjI)
    show "cosine_rampdown c L = Inr (0.5 * (cos (pi * c / L) + 1))"
      using assms by (simp add: cosine_rampdown_in_range)
    show "cosine_rampdown c' L = Inr (0.5 * (cos (pi * c' / L) + 1))"
      using assms that by (simp add: cosine_rampdown_in_range)
    show "0.5 * (cos (pi * c' / L) + 1) \<le> 0.5 * (cos (pi * c / L) + 1)"
      using cos_ramp_mono [OF assms(1,2) that] by simp
  qed
  moreover have "cosine_rampdown 0 L = Inr 1" "cosine_rampdown L L = Inr 0"
    using assms by (simp_all add: cosine_rampdown_def)
  ultimately show ?thesis
    using assms cosine_rampdown_in_range by blast
qed

theorem cosine_rampdown_spec_witness:
  "(0::real) < 2 \<and> (0::real) \<le> 1 \<and> (1::real) \<le> 2
   \<and> cosine_rampdown 1 2 = Inr (1 / 2)
   \<and> cosine_rampdown 0 2 = Inr 1
   \<and> cosine_rampdown 2 2 = Inr 0"
  using cosine_rampdown_spec [of 2 1] by simp

section \<open>Results: the dice score\<close>






section \<open>Results: the confusion loss\<close>

lemma forward_uniform: "forward [[0.5, 0.5]] t = Some (ln 2)"
  using ln_div [of 1 2] by (simp add: forward_def size1_def)

lemma forward_confident: "forward [[0.99, 0.01]] t = Some ((ln (100 / 99) + ln 100) / 2)"
proof -
  have a: "ln (99 / 100 :: real) = - ln (100 / 99)"
    using ln_inverse [of "100 / 99 :: real"] by simp
  have b: "ln (1 / 100 :: real) = - ln 100"
    using ln_inverse [of "100 :: real"] by (simp add: ln_div)
  have "- ((ln (99 / 100 :: real) + ln (1 / 100)) / 2) = (ln (100 / 99) + ln 100) / 2"
    unfolding a b by argo
  then show ?thesis
    by (simp add: forward_def size1_def)
qed

lemma ln_2_less_confident: "ln (2::real) < (ln (100 / 99) + ln 100) / 2"
proof -
  define A :: real where "A = ln (100 / 99)"
  define B :: real where "B = ln 100"
  define C :: real where "C = ln 2"
  have "ln (4::real) < ln 100"
    by simp
  moreover have "ln (4::real) = 2 * ln 2"
    using ln_realpow [of 2 2] by simp
  ultimately have 1: "2 * C < B"
    by (simp add: B_def C_def)
  have 2: "0 < A"
    unfolding A_def by (rule ln_gt_zero) simp
  have "C < (A + B) / 2"
    using 1 2 by argo
  then show ?thesis
    by (simp only: A_def B_def C_def)
qed

text \<open>
  C2 as stated: the loss on the uniform input \<^verbatim>\<open>[[0.5, 0.5]]\<close> should be larger than on
  the confident input \<^verbatim>\<open>[[0.99, 0.01]]\<close>. It fails on the code: the loss is \<open>ln 2\<close> (about
  0.69) on the first and \<open>(ln (100 / 99) + ln 100) / 2\<close> (about 2.31) on the second, and
  the first is not the larger one.
\<close>

theorem confusion_loss_uniform_not_larger:
  "forward [[0.5, 0.5]] () = Some (ln 2)
   \<and> forward [[0.99, 0.01]] () = Some ((ln (100 / 99) + ln 100) / 2)
   \<and> \<not> (ln 2 > (ln (100 / 99) + ln 100) / (2::real))"
  using forward_uniform [of "()"] forward_confident [of "()"] ln_2_less_confident by simp

text \<open>
  C2 as amended. For any target arguments, the loss on \<^verbatim>\<open>[[0.5, 0.5]]\<close> is \<open>ln 2\<close>, the loss
  on \<^verbatim>\<open>[[0.99, 0.01]]\<close> is \<open>(ln (100 / 99) + ln 100) / 2\<close>, both are positive, and the loss
  on the uniform input is the smaller one.
\<close>

theorem confusion_loss_uniform_smaller:
  "forward [[0.5, 0.5]] t = Some (ln 2)
   \<and> forward [[0.99, 0.01]] t' = Some ((ln (100 / 99) + ln 100) / 2)
   \<and> 0 < ln (2::real)
   \<and> ln 2 < (ln (100 / 99) + ln 100) / (2::real)"
  using forward_uniform [of t] forward_confident [of t'] ln_2_less_confident by simp

section \<open>Results: the validation loop\<close>













section \<open>Results: patch extraction\<close>





















end
